theory Spec2Isabelle
  imports Main "HOL-Library.Word" "HOL-Library.AList"
begin

section \<open>Data model\<close>

text \<open>
  The broker of \<^verbatim>\<open>broker/client.go\<close> and \<^verbatim>\<open>broker/config.go\<close>, embedded as
  functions on an explicit world. Go memory (the client objects and the registry
  \<^verbatim>\<open>Broker.clients\<close>) is state; what the program does to its environment (packets put on a
  connection, a connection closed, a log line, the send mutex taken and released, a
  sleep, a goroutine started) is appended to a chronological trace.

  Client objects are shared through pointers (\<^verbatim>\<open>*client\<close>): the registry, a message and
  the fan-out closure all refer to the same object. So the objects live in a heap that is
  addressed by references, and the registry stores references.
\<close>

type_synonym byte = "8 word"
type_synonym ClientIdentifier = string
type_synonym conn_ref = nat
type_synonym client_ref = nat

text \<open>
  Go's \<^verbatim>\<open>error\<close>: \<open>New s\<close> is \<^verbatim>\<open>errors.New(s)\<close>, \<open>NetError s\<close> an error that the
  network or the codec library reports. A nil error is \<open>None\<close>.
\<close>

datatype error = New string | NetError string

subsection \<open>Control packets of the codec library\<close>

text \<open>
  The packet types of \<^verbatim>\<open>paho.mqtt.golang/packets\<close>, with the fields the broker reads or
  writes. The record fields of two packet types cannot share a name, so
  \<^verbatim>\<open>MessageID\<close> carries the packet type as a suffix.
\<close>

record ConnectPacket =
  ProtocolName :: string
  ProtocolVersion :: byte
  CleanSession :: bool
  ClientIdentifier :: string
  Username :: string
  Password :: "byte list"

record ConnackPacket =
  SessionPresent :: bool
  ReturnCode :: byte

record PublishPacket =
  TopicName :: string
  MessageID_Publish :: "16 word"
  Payload :: "byte list"

record SubscribePacket =
  MessageID_Subscribe :: "16 word"
  Topics :: "string list"
  Qoss :: "byte list"

record SubackPacket =
  MessageID_Suback :: "16 word"
  ReturnCodes :: "byte list"

text \<open>
  \<^verbatim>\<open>packets.ControlPacket\<close> is an interface; a value of it is one of the library's
  packet types or some other implementation (\<open>Unknown\<close>). The nil interface value is
  \<open>None\<close> of \<open>ControlPacket option\<close>.
\<close>

datatype ControlPacket =
    Connect ConnectPacket
  | Connack ConnackPacket
  | Publish PublishPacket
  | Puback
  | Pubrec
  | Pubrel
  | Pubcomp
  | Subscribe SubscribePacket
  | Suback SubackPacket
  | Unsubscribe
  | Unsuback
  | Pingreq
  | Pingresp
  | Disconnect
  | Unknown

text \<open>The library's return codes that the broker names.\<close>

definition Accepted :: byte where
  "Accepted = 0x00"

definition ErrRefusedNotAuthorised :: byte where
  "ErrRefusedNotAuthorised = 0x05"

subsection \<open>Sessions\<close>

definition Connected :: int where
  "Connected = 1"

definition Disconnected :: int where
  "Disconnected = 2"

text \<open>
  There is one broker in a world, so a non-nil \<^verbatim>\<open>*Broker\<close> is \<open>TheBroker\<close>.
\<close>

datatype Broker_ref = TheBroker

text \<open>
  \<^verbatim>\<open>struct client\<close>. The field \<^verbatim>\<open>id\<close> is \<open>id_client\<close>. \<open>conn\<close> is nil (\<open>None\<close>) or a
  connection. The pair \<^verbatim>\<open>ctx\<close>, \<^verbatim>\<open>cancelFunc\<close> is the flag \<open>ctx_done\<close>: calling
  \<^verbatim>\<open>cancelFunc\<close> sets it. The mutex \<^verbatim>\<open>mu\<close> has no field: taking and releasing it are
  events of the trace.
\<close>

record client =
  id_client :: ClientIdentifier
  publishOnly :: bool
  broker :: "Broker_ref option"
  conn :: "conn_ref option"
  status :: int
  ctx_done :: bool

subsection \<open>The world\<close>

datatype event =
    Write conn_ref ControlPacket "error option"
  | ConnClose conn_ref
  | Lock client_ref
  | Unlock client_ref
  | LogError string "error option"
  | LogInfo string
  | Sleep int
  | GoHandleConnection conn_ref

text \<open>
  \<open>clients\<close> is \<^verbatim>\<open>Broker.clients\<close>, a \<^verbatim>\<open>sync.Map\<close> from identifier to \<^verbatim>\<open>*client\<close>, kept
  as an association list so that it can be iterated. \<open>heap\<close> holds the client objects,
  \<open>next_ref\<close> is the next address an allocation returns. \<open>writes\<close> is the environment:
  the results of the coming calls of the codec's \<^verbatim>\<open>Write\<close>, one per call, and success
  once the list is used up. A panic inside the codec is not a result of this model.
\<close>

record world =
  clients :: "(ClientIdentifier \<times> client_ref) list"
  heap :: "client_ref \<Rightarrow> client"
  next_ref :: client_ref
  writes :: "error option list"
  trace :: "event list"

definition emit :: "world \<Rightarrow> event \<Rightarrow> world" where
  "emit w e = w\<lparr>trace := trace w @ [e]\<rparr>"

definition upd_client :: "world \<Rightarrow> client_ref \<Rightarrow> (client \<Rightarrow> client) \<Rightarrow> world" where
  "upd_client w c f = w\<lparr>heap := (heap w)(c := f (heap w c))\<rparr>"

text \<open>
  \<^verbatim>\<open>packet.Write(conn)\<close>: takes the next result from the environment and records the
  call with its result.
\<close>

definition next_write_result :: "world \<Rightarrow> error option" where
  "next_write_result w = (case writes w of [] \<Rightarrow> None | r # _ \<Rightarrow> r)"

definition Write_packet :: "world \<Rightarrow> conn_ref \<Rightarrow> ControlPacket \<Rightarrow> error option \<times> world" where
  "Write_packet w k p =
     (let r = next_write_result w
      in (r, emit (w\<lparr>writes := tl (writes w)\<rparr>) (Write k p r)))"

section \<open>The client registry\<close>

definition AddClient :: "world \<Rightarrow> client_ref \<Rightarrow> world" where
  "AddClient w c = w\<lparr>clients := AList.update (id_client (heap w c)) c (clients w)\<rparr>"

definition LoadClient :: "world \<Rightarrow> ClientIdentifier \<Rightarrow> client_ref option" where
  "LoadClient w i = map_of (clients w) i"

definition DeleteClient :: "world \<Rightarrow> client_ref \<Rightarrow> world" where
  "DeleteClient w c = w\<lparr>clients := AList.delete (id_client (heap w c)) (clients w)\<rparr>"

text \<open>
  \<^verbatim>\<open>EachClient\<close> ranges over the registry and logs every error the callback returns;
  the callback of \<^verbatim>\<open>Range\<close> always answers true, so the iteration goes on. The entries
  visited are those present when the iteration starts, in the order of the list (Go
  leaves the order open).
\<close>

fun each_client :: "(client_ref \<Rightarrow> world \<Rightarrow> error option \<times> world) \<Rightarrow> client_ref list \<Rightarrow> world \<Rightarrow> world" where
  "each_client fn [] w = w"
| "each_client fn (c # cs) w =
     (case fn c w of
        (None, w') \<Rightarrow> each_client fn cs w'
      | (Some err, w') \<Rightarrow> each_client fn cs (emit w' (LogError ''process'' (Some err))))"

definition EachClient :: "world \<Rightarrow> (client_ref \<Rightarrow> world \<Rightarrow> error option \<times> world) \<Rightarrow> world" where
  "EachClient w fn = each_client fn (map snd (clients w)) w"

section \<open>The connection session\<close>

definition Close :: "world \<Rightarrow> client_ref \<Rightarrow> world" where
  "Close w c =
     (if status (heap w c) = Disconnected then w
      else
        let w1 = upd_client w c (\<lambda>s. s\<lparr>ctx_done := True\<rparr>);
            w2 = upd_client w1 c (\<lambda>s. s\<lparr>status := Disconnected\<rparr>);
            b = broker (heap w2 c);
            w3 = (case conn (heap w2 c) of
                    None \<Rightarrow> w2
                  | Some k \<Rightarrow> upd_client (emit w2 (ConnClose k)) c (\<lambda>s. s\<lparr>conn := None\<rparr>))
        in (case b of None \<Rightarrow> w3 | Some _ \<Rightarrow> DeleteClient w3 c))"

definition Send :: "world \<Rightarrow> client_ref \<Rightarrow> ControlPacket option \<Rightarrow> error option \<times> world" where
  "Send w c packet =
     (if status (heap w c) = Disconnected then (None, w)
      else (case packet of
        None \<Rightarrow> (None, w)
      | Some p \<Rightarrow>
          (case conn (heap w c) of
             None \<Rightarrow> (Some (New ''connection lost''), Close w c)
           | Some k \<Rightarrow>
               (let (err, w') = Write_packet (emit w (Lock c)) k p
                in (err, emit w' (Unlock c))))))"

section \<open>Packet handlers\<close>

text \<open>
  A handler that dereferences a nil \<^verbatim>\<open>*Broker\<close> panics; the worker that runs it dies
  with the world as it was.
\<close>

datatype panic = NilPointerDereference

definition ProcessPublish :: "world \<Rightarrow> client_ref \<Rightarrow> PublishPacket \<Rightarrow> panic + world" where
  "ProcessPublish w c packet =
     (case broker (heap w c) of
        None \<Rightarrow> Inl NilPointerDereference
      | Some _ \<Rightarrow>
          Inr (EachClient w (\<lambda>other w'.
            if id_client (heap w' c) = id_client (heap w' other) \<or> publishOnly (heap w' other)
            then (None, w')
            else Send w' other (Some (Publish packet)))))"

definition ProcessSubscribe :: "world \<Rightarrow> client_ref \<Rightarrow> SubscribePacket \<Rightarrow> world" where
  "ProcessSubscribe w c packet =
     (if status (heap w c) = Disconnected then w
      else (case broker (heap w c) of
        None \<Rightarrow> w
      | Some _ \<Rightarrow>
          (let suback = \<lparr>MessageID_Suback = MessageID_Subscribe packet,
                         ReturnCodes = map (\<lambda>_. 0) (Topics packet)\<rparr>
           in (case Send w c (Some (Suback suback)) of
                 (None, w') \<Rightarrow> w'
               | (Some err, w') \<Rightarrow> emit w' (LogError ''send suback error, '' (Some err))))))"

definition ProcessPing :: "world \<Rightarrow> client_ref \<Rightarrow> world" where
  "ProcessPing w c =
     (if status (heap w c) = Disconnected then w
      else (case Send w c (Some Pingresp) of
              (None, w') \<Rightarrow> w'
            | (Some err, w') \<Rightarrow> emit w' (LogError ''send PingResponse error, '' (Some err))))"

text \<open>
  \<^verbatim>\<open>struct Message\<close>. The read loop builds every message with the session that read
  the packet, so \<open>client_of\<close> is a reference, never nil.
\<close>

record Message =
  client_of :: client_ref
  packet_of :: "ControlPacket option"

definition ProcessMessage :: "world \<Rightarrow> Message \<Rightarrow> panic + world" where
  "ProcessMessage w msg =
     (let c = client_of msg in
      case packet_of msg of
        None \<Rightarrow> Inr w
      | Some ca \<Rightarrow>
          (case ca of
             Connack _ \<Rightarrow> Inr w
           | Connect _ \<Rightarrow> Inr w
           | Publish packet \<Rightarrow> ProcessPublish w c packet
           | Puback \<Rightarrow> Inr w
           | Pubrec \<Rightarrow> Inr w
           | Pubrel \<Rightarrow> Inr w
           | Pubcomp \<Rightarrow> Inr w
           | Subscribe packet \<Rightarrow> Inr (ProcessSubscribe w c packet)
           | Suback _ \<Rightarrow> Inr w
           | Unsubscribe \<Rightarrow> Inr w
           | Unsuback \<Rightarrow> Inr w
           | Pingreq \<Rightarrow> Inr (ProcessPing w c)
           | Pingresp \<Rightarrow> Inr w
           | Disconnect \<Rightarrow> Inr (Close w c)
           | Unknown \<Rightarrow> Inr (emit w (LogInfo ''Recv Unknown message.......''))))"

section \<open>The handshake\<close>

text \<open>
  What \<^verbatim>\<open>packets.ReadPacket(conn)\<close> returns is an input: an error, or a packet that
  may be the nil interface value.
\<close>

datatype read_result = ReadError error | ReadPacket "ControlPacket option"

definition handleConnectPacket :: "world \<Rightarrow> conn_ref \<Rightarrow> read_result \<Rightarrow> (error + ConnectPacket) \<times> world" where
  "handleConnectPacket w k rd =
     (case rd of
        ReadError err \<Rightarrow> (Inl err, w)
      | ReadPacket None \<Rightarrow> (Inl (New ''nil packet''), w)
      | ReadPacket (Some (Connect connect)) \<Rightarrow> (Inr connect, emit w (LogInfo ''packet''))
      | ReadPacket (Some _) \<Rightarrow> (Inl (New ''not connect''), w))"

text \<open>\<^verbatim>\<open>packets.NewControlPacket(packets.Connack)\<close>: a CONNACK with zero fields.\<close>

definition NewControlPacket_Connack :: ConnackPacket where
  "NewControlPacket_Connack = \<lparr>SessionPresent = False, ReturnCode = 0\<rparr>"

text \<open>
  The first three statements of \<^verbatim>\<open>handleConnackPacket\<close>. \<^verbatim>\<open>connect.Validate()\<close> belongs
  to the codec library; it is the parameter \<open>Validate\<close>.
\<close>

definition build_connack :: "(ConnectPacket \<Rightarrow> byte) \<Rightarrow> ConnectPacket \<Rightarrow> ConnackPacket" where
  "build_connack Validate connect =
     NewControlPacket_Connack
       \<lparr>SessionPresent := \<not> CleanSession connect, ReturnCode := Validate connect\<rparr>"

text \<open>
  The branch for a registered identifier has no return of its own: after its write
  succeeds, control reaches the last write with the packet it has just changed.
\<close>

definition handleConnackPacket :: "(ConnectPacket \<Rightarrow> byte) \<Rightarrow> world \<Rightarrow> conn_ref \<Rightarrow> ConnectPacket \<Rightarrow> error option \<times> world" where
  "handleConnackPacket Validate w k connect =
     (let connack = build_connack Validate connect in
      if ReturnCode connack \<noteq> Accepted then
        (case Write_packet w k (Connack connack) of
           (Some err, w') \<Rightarrow> (Some err, w')
         | (None, w') \<Rightarrow> (Some (New ''connect not accepted''), w'))
      else
        (let (connack', err, w1) =
               (case LoadClient w (ClientIdentifier connect) of
                  Some _ \<Rightarrow>
                    (let ca = connack\<lparr>ReturnCode := ErrRefusedNotAuthorised\<rparr>;
                         (err, w') = Write_packet w k (Connack ca)
                     in (ca, err, w'))
                | None \<Rightarrow> (connack, None, w))
         in (case err of
               Some e \<Rightarrow> (Some e, w1)
             | None \<Rightarrow> Write_packet w1 k (Connack connack'))))"

definition newClient :: "world \<Rightarrow> conn_ref \<Rightarrow> string \<Rightarrow> client_ref \<times> world" where
  "newClient w k i =
     (let c = next_ref w
      in (c, w\<lparr>heap := (heap w)(c :=
                  \<lparr>id_client = i, publishOnly = False, broker = Some TheBroker,
                   conn = Some k, status = Connected, ctx_done = False\<rparr>),
                next_ref := Suc c\<rparr>))"

text \<open>
  \<^verbatim>\<open>handleConnection\<close> up to the registration of the session. The read loop that it
  then enters only reads packets and hands them to the worker pool; the result is the
  new session, if one was made, and the world in which that loop starts.
\<close>

definition handleConnection :: "(ConnectPacket \<Rightarrow> byte) \<Rightarrow> world \<Rightarrow> conn_ref \<Rightarrow> read_result \<Rightarrow> client_ref option \<times> world" where
  "handleConnection Validate w k rd =
     (case handleConnectPacket w k rd of
        (Inl err, w1) \<Rightarrow> (None, emit w1 (LogError ''process connect'' (Some err)))
      | (Inr connect, w1) \<Rightarrow>
          (case handleConnackPacket Validate w1 k connect of
             (Some err, w2) \<Rightarrow> (None, emit w2 (LogError ''process connack'' (Some err)))
           | (None, w2) \<Rightarrow>
               (let (c, w3) = newClient w2 k (ClientIdentifier connect)
                in (Some c, AddClient w3 c))))"

section \<open>The acceptor\<close>

text \<open>
  \<^verbatim>\<open>time.Duration\<close> is a signed 64-bit count of nanoseconds; \<open>int64\<close> is the value an
  arithmetic result has after it wrapped.
\<close>

definition int64 :: "int \<Rightarrow> int" where
  "int64 x = (x + 2 ^ 63) mod 2 ^ 64 - 2 ^ 63"

definition Millisecond :: int where
  "Millisecond = 1000000"

definition Second :: int where
  "Second = 1000000000"

definition ACCEPT_MIN_SLEEP :: int where
  "ACCEPT_MIN_SLEEP = 100 * Millisecond"

definition ACCEPT_MAX_SLEEP :: int where
  "ACCEPT_MAX_SLEEP = 10 * Second"

text \<open>
  The two loops of \<^verbatim>\<open>StartClientListening\<close> never end by themselves; each runs
  here over the results the environment gives to its calls, as far as these are given.
  \<open>listen_loop\<close> answers whether a listener was obtained.
\<close>

fun listen_loop :: "string \<Rightarrow> error option list \<Rightarrow> event list \<times> bool" where
  "listen_loop hp [] = ([], False)"
| "listen_loop hp (None # ls) = ([LogInfo (''Start Listening client on '' @ hp)], True)"
| "listen_loop hp (Some err # ls) =
     (let (es, ok) = listen_loop hp ls
      in ([LogInfo (''Start Listening client on '' @ hp),
           LogError ''Error listening on '' (Some err),
           Sleep (1 * Second)] @ es, ok))"

datatype accept_result =
    AcceptConn conn_ref
  | AcceptTemporary error
  | AcceptError error

fun accept_loop :: "int \<Rightarrow> accept_result list \<Rightarrow> event list \<times> int" where
  "accept_loop tmpDelay [] = ([], tmpDelay)"
| "accept_loop tmpDelay (AcceptTemporary ne # rs) =
     (let doubled = int64 (tmpDelay * 2);
          tmpDelay' = (if doubled > ACCEPT_MAX_SLEEP then ACCEPT_MAX_SLEEP else doubled);
          (es, d) = accept_loop tmpDelay' rs
      in ([LogError ''Temporary Client Accept Error(%v), sleeping %dms'' (Some ne),
           Sleep tmpDelay] @ es, d))"
| "accept_loop tmpDelay (AcceptError err # rs) =
     (let (es, d) = accept_loop tmpDelay rs
      in ([LogError ''Accept error: %v'' (Some err)] @ es, d))"
| "accept_loop tmpDelay (AcceptConn k # rs) =
     (let (es, d) = accept_loop ACCEPT_MIN_SLEEP rs
      in ([GoHandleConnection k] @ es, d))"

section \<open>Configuration\<close>

record Config =
  Worker :: int
  Host :: string
  Port :: string
  Debug :: bool

definition check :: "Config \<Rightarrow> error option \<times> Config" where
  "check config =
     (let c1 = (if Worker config = 0 then config\<lparr>Worker := 1024\<rparr> else config);
          c2 = (if Port c1 \<noteq> [] then
                  (if Host c1 = [] then c1\<lparr>Host := ''0.0.0.0''\<rparr> else c1)
                else c1)
      in (None, c2))"

definition StartClientListening :: "Config \<Rightarrow> error option list \<Rightarrow> accept_result list \<Rightarrow> event list" where
  "StartClientListening config listens accepts =
     (let hp = Host config @ '':'' @ Port config;
          (es, listening) = listen_loop hp listens
      in if listening then es @ fst (accept_loop (10 * ACCEPT_MIN_SLEEP) accepts) else es)"

text \<open>
  \<^verbatim>\<open>LoadConfig\<close>: the file system (\<^verbatim>\<open>ioutil.ReadFile\<close>) and \<^verbatim>\<open>json.Unmarshal\<close> into a
  zero \<^verbatim>\<open>Config\<close> are parameters.
\<close>

definition LoadConfig :: "(string \<Rightarrow> error + string) \<Rightarrow> (string \<Rightarrow> error + Config) \<Rightarrow> string \<Rightarrow> error + Config" where
  "LoadConfig ReadFile Unmarshal filename =
     (case ReadFile filename of
        Inl err \<Rightarrow> Inl err
      | Inr content \<Rightarrow>
          (case Unmarshal content of
             Inl err \<Rightarrow> Inl err
           | Inr config \<Rightarrow> Inr config))"

text \<open>
  What \<^verbatim>\<open>fs.Parse(args)\<close> leaves behind: the variables the flags are bound to, and
  whether the flag \<^verbatim>\<open>D\<close> was given (what \<^verbatim>\<open>fs.Visit\<close> looks for). The flag set is
  made with \<^verbatim>\<open>flag.ExitOnError\<close>, so the library may also end the process.
\<close>

record flags =
  help_flag :: bool
  configFile :: string
  config_of :: Config
  D_given :: bool

datatype parse_result = ParseError error | ParseExit int | Parsed flags

datatype logger = Prod | DebugLogger

datatype 'a outcome = Exit int | Return 'a

definition ConfigureConfig :: "(string list \<Rightarrow> parse_result) \<Rightarrow> (string \<Rightarrow> error + string) \<Rightarrow> (string \<Rightarrow> error + Config) \<Rightarrow> logger \<Rightarrow> string list \<Rightarrow> (Config option \<times> error option \<times> logger) outcome" where
  "ConfigureConfig Parse ReadFile Unmarshal log args =
     (case Parse args of
        ParseExit n \<Rightarrow> Exit n
      | ParseError err \<Rightarrow> Return (None, Some err, log)
      | Parsed fl \<Rightarrow>
          if help_flag fl then Exit 0
          else
            (let config = (if D_given fl then (config_of fl)\<lparr>Debug := True\<rparr> else config_of fl)
             in (case (if configFile fl \<noteq> [] then LoadConfig ReadFile Unmarshal (configFile fl)
                       else Inr config) of
                   Inl e \<Rightarrow> Return (None, Some e, log)
                 | Inr config' \<Rightarrow>
                     (let log' = (if Debug config' then DebugLogger else log)
                      in (case check config' of
                            (Some err, _) \<Rightarrow> Return (None, Some err, log')
                          | (None, config'') \<Rightarrow> Return (Some config'', None, log'))))))"

section \<open>Notions used to state the properties\<close>

text \<open>The events a run from \<open>w\<close> to \<open>w'\<close> has added to the trace.\<close>

definition events_since :: "world \<Rightarrow> world \<Rightarrow> event list" where
  "events_since w w' = drop (length (trace w)) (trace w')"

definition trace_extends :: "world \<Rightarrow> world \<Rightarrow> bool" where
  "trace_extends w w' \<longleftrightarrow> trace w' = trace w @ events_since w w'"

text \<open>No session has changed its identifier or its \<open>publishOnly\<close> flag.\<close>

definition same_identity :: "world \<Rightarrow> world \<Rightarrow> bool" where
  "same_identity w w' \<longleftrightarrow>
     (\<forall>q. id_client (heap w' q) = id_client (heap w q) \<and>
          publishOnly (heap w' q) = publishOnly (heap w q))"

subsection \<open>The fan-out as the specification words it\<close>

text \<open>
  The peers a PUBLISH from \<open>c\<close> is for: the registered sessions with another identifier
  that are not \<open>publishOnly\<close>, read off the world in which the fan-out starts.
\<close>

definition fanout_targets :: "world \<Rightarrow> client_ref \<Rightarrow> client_ref list" where
  "fanout_targets w c =
     filter (\<lambda>other. id_client (heap w other) \<noteq> id_client (heap w c) \<and>
                     \<not> publishOnly (heap w other))
       (map snd (clients w))"

text \<open>One delivery: the send, and the log line if it returned an error.\<close>

definition send_logged :: "ControlPacket \<Rightarrow> client_ref \<Rightarrow> world \<Rightarrow> world" where
  "send_logged p c w =
     (case Send w c (Some p) of
        (None, w') \<Rightarrow> w'
      | (Some err, w') \<Rightarrow> emit w' (LogError ''process'' (Some err)))"

text \<open>Deliveries to a list of peers, one after the other, whatever each send returns.\<close>

fun send_each :: "ControlPacket \<Rightarrow> client_ref list \<Rightarrow> world \<Rightarrow> world" where
  "send_each p [] w = w"
| "send_each p (c # cs) w = send_each p cs (send_logged p c w)"

subsection \<open>The backoff as a closed form\<close>

fun is_temporary :: "accept_result \<Rightarrow> bool" where
  "is_temporary (AcceptTemporary _) = True"
| "is_temporary _ = False"

fun is_conn :: "accept_result \<Rightarrow> bool" where
  "is_conn (AcceptConn _) = True"
| "is_conn _ = False"

text \<open>
  The number of temporary failures among the results \<open>rs\<close> since the last accepted
  connection, or since the loop started when there was none.
\<close>

definition failures_since_accept :: "accept_result list \<Rightarrow> nat" where
  "failures_since_accept rs =
     length (filter is_temporary (takeWhile (\<lambda>r. \<not> is_conn r) (rev rs)))"

text \<open>
  The delay the loop holds after the results \<open>rs\<close>: ten times the minimum doubled per
  failure while nothing was accepted yet, the minimum doubled per failure afterwards,
  never above the maximum.
\<close>

definition current_delay :: "accept_result list \<Rightarrow> int" where
  "current_delay rs =
     (if list_ex is_conn rs
      then min (ACCEPT_MIN_SLEEP * 2 ^ failures_since_accept rs) ACCEPT_MAX_SLEEP
      else min (10 * ACCEPT_MIN_SLEEP * 2 ^ failures_since_accept rs) ACCEPT_MAX_SLEEP)"

text \<open>What one iteration of the accept loop does when it holds the delay \<open>d\<close>.\<close>

fun accept_action :: "int \<Rightarrow> accept_result \<Rightarrow> event list" where
  "accept_action d (AcceptTemporary ne) =
     [LogError ''Temporary Client Accept Error(%v), sleeping %dms'' (Some ne), Sleep d]"
| "accept_action d (AcceptError err) = [LogError ''Accept error: %v'' (Some err)]"
| "accept_action d (AcceptConn k) = [GoHandleConnection k]"

definition next_delay :: "int \<Rightarrow> accept_result \<Rightarrow> int" where
  "next_delay d r =
     (case r of
        AcceptTemporary _ \<Rightarrow> min (d * 2) ACCEPT_MAX_SLEEP
      | AcceptError _ \<Rightarrow> d
      | AcceptConn _ \<Rightarrow> ACCEPT_MIN_SLEEP)"

section \<open>Example worlds\<close>

text \<open>
  The scenario of the specification: the sessions \<^verbatim>\<open>c1\<close>, \<^verbatim>\<open>c2\<close> and \<^verbatim>\<open>c3\<close> are
  connected on the connections 11, 12 and 13 and registered; every other address of the
  heap holds a zero \<^verbatim>\<open>client\<close>. In \<open>world3_broken\<close> the next write fails.
\<close>

definition zero_client :: client where
  "zero_client =
     \<lparr>id_client = [], publishOnly = False, broker = None, conn = None, status = 0,
      ctx_done = False\<rparr>"

definition session :: "string \<Rightarrow> conn_ref \<Rightarrow> client" where
  "session i k =
     \<lparr>id_client = i, publishOnly = False, broker = Some TheBroker, conn = Some k,
      status = Connected, ctx_done = False\<rparr>"

definition world3 :: world where
  "world3 =
     \<lparr>clients = [(''c1'', 1), (''c2'', 2), (''c3'', 3)],
      heap = (\<lambda>_. zero_client)
        (1 := session ''c1'' 11, 2 := session ''c2'' 12, 3 := session ''c3'' 13),
      next_ref = 4, writes = [], trace = []\<rparr>"

definition world3_broken :: world where
  "world3_broken = world3\<lparr>writes := [Some (NetError ''broken pipe'')]\<rparr>"

definition hello :: PublishPacket where
  "hello = \<lparr>TopicName = ''t/1'', MessageID_Publish = 0, Payload = [104, 101, 108, 108, 111]\<rparr>"

text \<open>
  A validator for the examples: it accepts protocol \<^verbatim>\<open>MQTT\<close> at level 4 and refuses
  every other CONNECT with the code of an unacceptable protocol version.
\<close>

definition sample_Validate :: "ConnectPacket \<Rightarrow> byte" where
  "sample_Validate connect =
     (if ProtocolName connect = ''MQTT'' \<and> ProtocolVersion connect = 4 then Accepted else 0x01)"

definition connect_c1 :: ConnectPacket where
  "connect_c1 =
     \<lparr>ProtocolName = ''MQTT'', ProtocolVersion = 4, CleanSession = True,
      ClientIdentifier = ''c1'', Username = [], Password = []\<rparr>"

definition connect_c4 :: ConnectPacket where
  "connect_c4 =
     \<lparr>ProtocolName = ''MQTT'', ProtocolVersion = 4, CleanSession = True,
      ClientIdentifier = ''c4'', Username = [], Password = []\<rparr>"

text \<open>\<^verbatim>\<open>DefaultConfig\<close> of \<^verbatim>\<open>config.go\<close>.\<close>

definition DefaultConfig :: Config where
  "DefaultConfig = \<lparr>Worker = 4096, Host = ''0.0.0.0'', Port = ''1883'', Debug = False\<rparr>"

text \<open>
  The command line \<^verbatim>\<open>-w 0 -host "" -D\<close> after parsing, and a file system and a
  decoder that fail.
\<close>

definition sample_flags :: flags where
  "sample_flags =
     \<lparr>help_flag = False, configFile = [],
      config_of = \<lparr>Worker = 0, Host = [], Port = ''1883'', Debug = False\<rparr>,
      D_given = True\<rparr>"

definition no_file :: "string \<Rightarrow> error + string" where
  "no_file filename = Inl (NetError ''no such file or directory'')"

definition no_json :: "string \<Rightarrow> error + Config" where
  "no_json content = Inl (NetError ''unexpected end of JSON input'')"

lemmas fixture_defs = world3_def world3_broken_def session_def zero_client_def hello_def
  connect_c1_def connect_c4_def sample_Validate_def Connected_def Disconnected_def
  Accepted_def ErrRefusedNotAuthorised_def

lemmas step_defs = Send_def Close_def Write_packet_def next_write_result_def emit_def
  upd_client_def DeleteClient_def AddClient_def LoadClient_def

section \<open>Close and Send\<close>

lemma Close_when_disconnected:
  "status (heap w c) = Disconnected \<Longrightarrow> Close w c = w"
  by (simp add: Close_def)

lemma status_Close: "status (heap (Close w c) c) = Disconnected"
  by (simp add: Close_def Let_def upd_client_def emit_def DeleteClient_def split: option.splits)

lemma Close_effect:
  assumes "status (heap w c) \<noteq> Disconnected"
  shows "heap (Close w c) =
      (heap w)(c := (heap w c)\<lparr>conn := None, status := Disconnected, ctx_done := True\<rparr>)"
    and "trace (Close w c) =
      trace w @ (case conn (heap w c) of None \<Rightarrow> [] | Some k \<Rightarrow> [ConnClose k])"
    and "clients (Close w c) =
      (case broker (heap w c) of
         None \<Rightarrow> clients w
       | Some _ \<Rightarrow> AList.delete (id_client (heap w c)) (clients w))"
    and "writes (Close w c) = writes w"
    and "next_ref (Close w c) = next_ref w"
  using assms
  by (auto simp add: Close_def Let_def upd_client_def emit_def DeleteClient_def fun_eq_iff
      split: option.splits)

text \<open>
  C5: Close is idempotent. On a session that is already Disconnected it returns the world
  as it is. Otherwise it fires the cancellation, sets the status to Disconnected, closes
  the connection if there is one and sets the field to nil, and deletes the registry entry
  of the session's identifier; a second call finds the status Disconnected, so it changes
  nothing and the entry is deleted once.
\<close>

theorem Close_idempotent:
  "Close (Close w c) c = Close w c \<and>
   (status (heap w c) = Disconnected \<longrightarrow> Close w c = w) \<and>
   (status (heap w c) \<noteq> Disconnected \<longrightarrow>
      heap (Close w c) =
        (heap w)(c := (heap w c)\<lparr>conn := None, status := Disconnected, ctx_done := True\<rparr>) \<and>
      trace (Close w c) =
        trace w @ (case conn (heap w c) of None \<Rightarrow> [] | Some k \<Rightarrow> [ConnClose k]) \<and>
      (broker (heap w c) \<noteq> None \<longrightarrow>
         clients (Close w c) = AList.delete (id_client (heap w c)) (clients w) \<and>
         (\<forall>i. LoadClient (Close w c) i =
               (if i = id_client (heap w c) then None else LoadClient w i))))"
proof (intro conjI impI allI)
  show "Close (Close w c) c = Close w c"
    by (rule Close_when_disconnected) (rule status_Close)
next
  assume "status (heap w c) = Disconnected"
  then show "Close w c = w" by (rule Close_when_disconnected)
next
  assume live: "status (heap w c) \<noteq> Disconnected"
  show "heap (Close w c) =
        (heap w)(c := (heap w c)\<lparr>conn := None, status := Disconnected, ctx_done := True\<rparr>)"
    by (rule Close_effect(1) [OF live])
  show "trace (Close w c) =
        trace w @ (case conn (heap w c) of None \<Rightarrow> [] | Some k \<Rightarrow> [ConnClose k])"
    by (rule Close_effect(2) [OF live])
  assume b: "broker (heap w c) \<noteq> None"
  then show del: "clients (Close w c) = AList.delete (id_client (heap w c)) (clients w)"
    using Close_effect(3) [OF live] by (auto split: option.splits)
  fix i
  show "LoadClient (Close w c) i = (if i = id_client (heap w c) then None else LoadClient w i)"
    by (simp add: LoadClient_def del delete_conv')
qed

theorem Close_idempotent_witness:
  "status (heap world3 2) \<noteq> Disconnected \<and> broker (heap world3 2) \<noteq> None \<and>
   clients (Close world3 2) = [(''c1'', 1), (''c3'', 3)] \<and>
   trace (Close world3 2) = [ConnClose 12] \<and>
   status (heap (Close world3 2) 2) = Disconnected \<and>
   Close (Close world3 2) 2 = Close world3 2"
  using Close_idempotent [of world3 2]
  by (simp add: world3_def session_def Connected_def Disconnected_def)

lemma next_write_result_emit: "next_write_result (emit w e) = next_write_result w"
  by (simp add: next_write_result_def emit_def)

text \<open>
  C6: Send returns nil and writes nothing when the status is Disconnected or the packet is
  nil; when the connection is nil it calls Close and returns the error
  \<^verbatim>\<open>connection lost\<close>; otherwise it takes the send lock, writes the packet to the
  connection, releases the lock and returns what the write returned.
\<close>

theorem Send_cases:
  "(status (heap w c) = Disconnected \<or> packet = None \<longrightarrow> Send w c packet = (None, w)) \<and>
   (status (heap w c) \<noteq> Disconnected \<and> packet \<noteq> None \<and> conn (heap w c) = None \<longrightarrow>
      Send w c packet = (Some (New ''connection lost''), Close w c)) \<and>
   (\<forall>p k. status (heap w c) \<noteq> Disconnected \<and> packet = Some p \<and> conn (heap w c) = Some k \<longrightarrow>
      fst (Send w c packet) = next_write_result w \<and>
      trace (snd (Send w c packet)) =
        trace w @ [Lock c, Write k p (next_write_result w), Unlock c] \<and>
      writes (snd (Send w c packet)) = tl (writes w) \<and>
      heap (snd (Send w c packet)) = heap w \<and>
      clients (snd (Send w c packet)) = clients w)"
  by (auto simp add: Send_def Write_packet_def Let_def emit_def next_write_result_def
      split: option.splits list.splits)

theorem Send_cases_witness:
  "status (heap world3 2) \<noteq> Disconnected \<and> conn (heap world3 2) = Some 12 \<and>
   fst (Send world3 2 (Some Pingresp)) = None \<and>
   trace (snd (Send world3 2 (Some Pingresp))) = [Lock 2, Write 12 Pingresp None, Unlock 2] \<and>
   Send world3 2 None = (None, world3) \<and>
   Send (Close world3 2) 2 (Some Pingresp) = (None, Close world3 2)"
  using Send_cases [of world3 2 "Some Pingresp"] Send_cases [of world3 2 None]
    Send_cases [of "Close world3 2" 2 "Some Pingresp"] status_Close [of world3 2]
  by (simp add: world3_def session_def Connected_def Disconnected_def next_write_result_def)

section \<open>The dispatcher\<close>

text \<open>
  C9: ProcessMessage on a message whose packet is nil returns at once: no handler runs,
  nothing is sent and the world is the one it was called in.
\<close>

theorem ProcessMessage_nil_packet:
  "packet_of msg = None \<Longrightarrow> ProcessMessage w msg = Inr w"
  by (simp add: ProcessMessage_def)

theorem ProcessMessage_nil_packet_witness:
  "packet_of \<lparr>client_of = 1, packet_of = None\<rparr> = None \<and>
   ProcessMessage world3 \<lparr>client_of = 1, packet_of = None\<rparr> = Inr world3"
  using ProcessMessage_nil_packet [of "\<lparr>client_of = 1, packet_of = None\<rparr>" world3]
  by simp

lemma ProcessSubscribe_disconnected:
  "status (heap w c) = Disconnected \<Longrightarrow> ProcessSubscribe w c packet = w"
  by (simp add: ProcessSubscribe_def)

lemma ProcessPing_disconnected:
  "status (heap w c) = Disconnected \<Longrightarrow> ProcessPing w c = w"
  by (simp add: ProcessPing_def)

text \<open>
  The handlers for SUBSCRIBE, PINGREQ and DISCONNECT test the status first: on a
  Disconnected session each of them leaves the world as it is.
\<close>

lemma guarded_handlers_disconnected:
  assumes "status (heap w c) = Disconnected"
  shows "ProcessMessage w \<lparr>client_of = c, packet_of = Some (Subscribe sp)\<rparr> = Inr w"
    and "ProcessMessage w \<lparr>client_of = c, packet_of = Some Pingreq\<rparr> = Inr w"
    and "ProcessMessage w \<lparr>client_of = c, packet_of = Some Disconnect\<rparr> = Inr w"
  using assms
  by (simp_all add: ProcessMessage_def ProcessSubscribe_disconnected ProcessPing_disconnected
      Close_when_disconnected)

text \<open>
  C3: a handler that runs for a Disconnected session is a no-op. \<^verbatim>\<open>ProcessPublish\<close> has no
  test of the status: after \<^verbatim>\<open>c1\<close> was closed, a PUBLISH of \<^verbatim>\<open>c1\<close> that was still
  queued is written to \<^verbatim>\<open>c2\<close> and \<^verbatim>\<open>c3\<close>.
\<close>

theorem disconnected_publish_still_fans_out:
  "status (heap (Close world3 1) 1) = Disconnected \<and>
   trace (Close world3 1) = [ConnClose 11] \<and>
   ProcessMessage (Close world3 1) \<lparr>client_of = 1, packet_of = Some (Publish hello)\<rparr> =
     Inr ((Close world3 1)\<lparr>trace :=
       [ConnClose 11,
        Lock 2, Write 12 (Publish hello) None, Unlock 2,
        Lock 3, Write 13 (Publish hello) None, Unlock 3]\<rparr>) \<and>
   ProcessMessage (Close world3 1) \<lparr>client_of = 1, packet_of = Some (Publish hello)\<rparr> \<noteq>
     Inr (Close world3 1)"
  by (simp add: ProcessMessage_def ProcessPublish_def EachClient_def send_logged_def Let_def
      step_defs world3_def session_def zero_client_def Connected_def Disconnected_def)

section \<open>Publish fan-out\<close>

lemma heap_emit: "heap (emit w e) = heap w"
  by (simp add: emit_def)

lemma trace_emit: "trace (emit w e) = trace w @ [e]"
  by (simp add: emit_def)

lemma Write_packet_simps:
  "fst (Write_packet w k p) = next_write_result w"
  "trace (snd (Write_packet w k p)) = trace w @ [Write k p (next_write_result w)]"
  "writes (snd (Write_packet w k p)) = tl (writes w)"
  "heap (snd (Write_packet w k p)) = heap w"
  "clients (snd (Write_packet w k p)) = clients w"
  "next_ref (snd (Write_packet w k p)) = next_ref w"
  by (simp_all add: Write_packet_def Let_def emit_def)

lemma heap_Close:
  "heap (Close w c) q =
     (if q = c \<and> status (heap w c) \<noteq> Disconnected
      then (heap w c)\<lparr>conn := None, status := Disconnected, ctx_done := True\<rparr>
      else heap w q)"
  by (cases "status (heap w c) = Disconnected")
    (simp_all add: Close_when_disconnected Close_effect(1))

text \<open>A send changes no session but, when it had to close it, the one it was sent to.\<close>

lemma heap_Send:
  "heap (snd (Send w c x)) q = heap w q \<or>
   (q = c \<and> conn (heap w c) = None \<and>
    heap (snd (Send w c x)) q =
      (heap w c)\<lparr>conn := None, status := Disconnected, ctx_done := True\<rparr>)"
  by (auto simp add: Send_def heap_Close Write_packet_simps heap_emit split_beta
      split: option.splits)

lemma same_identity_Send: "same_identity w (snd (Send w c x))"
  unfolding same_identity_def
proof
  fix q
  show "id_client (heap (snd (Send w c x)) q) = id_client (heap w q) \<and>
        publishOnly (heap (snd (Send w c x)) q) = publishOnly (heap w q)"
    using heap_Send [of w c x q] by auto
qed

lemma same_identity_emit: "same_identity w (emit w e)"
  by (simp add: same_identity_def heap_emit)

lemma same_identity_trans:
  "same_identity w w' \<Longrightarrow> same_identity w' w'' \<Longrightarrow> same_identity w w''"
  by (simp add: same_identity_def)

lemma same_identity_refl: "same_identity w w"
  by (simp add: same_identity_def)

lemma send_logged_cases:
  "send_logged p c w = snd (Send w c (Some p)) \<or>
   (\<exists>err. send_logged p c w = emit (snd (Send w c (Some p))) (LogError ''process'' (Some err)))"
  by (auto simp add: send_logged_def split: prod.splits option.splits)

lemma same_identity_send_logged: "same_identity w (send_logged p c w)"
  using send_logged_cases [of p c w] same_identity_Send [of w c "Some p"]
    same_identity_trans [OF same_identity_Send same_identity_emit]
  by auto

text \<open>
  The iteration of \<open>EachClient\<close> with the closure of \<open>ProcessPublish\<close> tests each peer
  in the world it has reached; the test gives what it gives in the first world, because
  no send changes an identifier or a \<open>publishOnly\<close> flag.
\<close>

lemma each_client_fanout:
  assumes "same_identity w0 w"
  shows "each_client (\<lambda>other w'.
            if id_client (heap w' c) = id_client (heap w' other) \<or> publishOnly (heap w' other)
            then (None, w')
            else Send w' other (Some p)) ps w =
         send_each p (filter (\<lambda>other. id_client (heap w0 other) \<noteq> id_client (heap w0 c) \<and>
                                 \<not> publishOnly (heap w0 other)) ps) w"
  using assms
proof (induction ps arbitrary: w)
  case Nil
  then show ?case by simp
next
  case (Cons a ps)
  let ?fn = "\<lambda>other w'.
            if id_client (heap w' c) = id_client (heap w' other) \<or> publishOnly (heap w' other)
            then (None, w')
            else Send w' other (Some p)"
  have ids: "id_client (heap w q) = id_client (heap w0 q)"
    "publishOnly (heap w q) = publishOnly (heap w0 q)" for q
    using Cons.prems by (simp_all add: same_identity_def)
  show ?case
  proof (cases "id_client (heap w0 a) \<noteq> id_client (heap w0 c) \<and> \<not> publishOnly (heap w0 a)")
    case False
    then have "?fn a w = (None, w)"
      by (auto simp add: ids)
    then show ?thesis
      using False Cons.IH [OF Cons.prems] by auto
  next
    case True
    then have fn: "?fn a w = Send w a (Some p)"
      by (auto simp add: ids)
    have next_world: "same_identity w0 (send_logged p a w)"
      using same_identity_trans [OF Cons.prems same_identity_send_logged] .
    have "each_client ?fn (a # ps) w = each_client ?fn ps (send_logged p a w)"
      by (simp add: fn send_logged_def split: prod.splits option.splits)
    then show ?thesis
      using True Cons.IH [OF next_world] by simp
  qed
qed

lemma ProcessPublish_send_each:
  assumes "broker (heap w c) \<noteq> None"
  shows "ProcessPublish w c packet = Inr (send_each (Publish packet) (fanout_targets w c) w)"
  using assms
    each_client_fanout [OF same_identity_refl, of c "Publish packet" "map snd (clients w)" w]
  by (auto simp add: ProcessPublish_def EachClient_def fanout_targets_def)

subsection \<open>What the fan-out puts on the connections\<close>

lemma trace_extendsI: "trace w' = trace w @ es \<Longrightarrow> trace_extends w w'"
  by (simp add: trace_extends_def events_since_def)

lemma events_sinceI: "trace w' = trace w @ es \<Longrightarrow> events_since w w' = es"
  by (simp add: events_since_def)

lemma events_since_trans:
  "trace_extends w w' \<Longrightarrow> trace_extends w' w'' \<Longrightarrow>
   trace_extends w w'' \<and> events_since w w'' = events_since w w' @ events_since w' w''"
  by (metis append.assoc events_sinceI trace_extendsI trace_extends_def)

lemma trace_Close:
  "\<exists>es. trace (Close w c) = trace w @ es \<and> (\<forall>k pk r. Write k pk r \<notin> set es)"
  by (cases "status (heap w c) = Disconnected")
    (auto simp add: Close_when_disconnected Close_effect(2) split: option.splits)

lemma trace_Send:
  "\<exists>es. trace (snd (Send w c x)) = trace w @ es \<and>
     (\<forall>k pk r. Write k pk r \<in> set es \<longrightarrow>
        x = Some pk \<and> conn (heap w c) = Some k \<and> status (heap w c) \<noteq> Disconnected)"
  using trace_Close [of w c]
  by (auto simp add: Send_def Write_packet_simps trace_emit split_beta split: option.splits)

lemma Send_writes:
  "status (heap w c) \<noteq> Disconnected \<Longrightarrow> conn (heap w c) = Some k \<Longrightarrow>
   trace (snd (Send w c (Some p))) =
     trace w @ [Lock c, Write k p (next_write_result w), Unlock c]"
  by (simp add: Send_def Write_packet_simps trace_emit split_beta next_write_result_emit)

lemma trace_extends_Send: "trace_extends w (snd (Send w c x))"
  using trace_Send [of w c x] by (auto intro: trace_extendsI)

lemma trace_extends_emit: "trace_extends w (emit w e)"
  by (rule trace_extendsI) (rule trace_emit)

lemma events_since_emit: "events_since w (emit w e) = [e]"
  by (rule events_sinceI) (rule trace_emit)

lemma Send_written:
  assumes "Write k pk r \<in> set (events_since w (snd (Send w c x)))"
  shows "x = Some pk \<and> conn (heap w c) = Some k \<and> status (heap w c) \<noteq> Disconnected"
proof -
  obtain es where es: "trace (snd (Send w c x)) = trace w @ es"
    "\<forall>k pk r. Write k pk r \<in> set es \<longrightarrow>
        x = Some pk \<and> conn (heap w c) = Some k \<and> status (heap w c) \<noteq> Disconnected"
    using trace_Send [of w c x] by blast
  have "events_since w (snd (Send w c x)) = es"
    by (rule events_sinceI) (rule es(1))
  with assms es(2) show ?thesis by blast
qed

lemma trace_extends_send_logged: "trace_extends w (send_logged p c w)"
  using send_logged_cases [of p c w] trace_extends_Send [of w c "Some p"]
    events_since_trans [OF trace_extends_Send trace_extends_emit]
  by auto

lemma heap_send_logged:
  "heap (send_logged p c w) q = heap w q \<or> (q = c \<and> conn (heap (send_logged p c w) q) = None)"
  using send_logged_cases [of p c w] heap_Send [of w c "Some p" q]
  by (auto simp add: heap_emit)

lemma send_logged_written:
  assumes "Write k pk r \<in> set (events_since w (send_logged p c w))"
  shows "pk = p \<and> conn (heap w c) = Some k \<and> status (heap w c) \<noteq> Disconnected"
proof -
  let ?w1 = "snd (Send w c (Some p))"
  have "Write k pk r \<in> set (events_since w ?w1)"
    using assms send_logged_cases [of p c w]
      events_since_trans [OF trace_extends_Send [of w c "Some p"] trace_extends_emit]
    by (auto simp add: events_since_emit)
  from Send_written [OF this] show ?thesis by simp
qed

lemma send_logged_writes:
  assumes "status (heap w c) \<noteq> Disconnected" "conn (heap w c) = Some k"
  shows "Write k p (next_write_result w) \<in> set (events_since w (send_logged p c w))"
proof -
  let ?w1 = "snd (Send w c (Some p))"
  have "events_since w ?w1 = [Lock c, Write k p (next_write_result w), Unlock c]"
    by (rule events_sinceI) (rule Send_writes [OF assms])
  then show ?thesis
    using send_logged_cases [of p c w]
      events_since_trans [OF trace_extends_Send [of w c "Some p"] trace_extends_emit]
    by (auto simp add: events_since_emit)
qed

lemma trace_extends_send_each: "trace_extends w (send_each p cs w)"
proof (induction cs arbitrary: w)
  case Nil
  show ?case by (simp add: trace_extends_def events_since_def)
next
  case (Cons c cs)
  show ?case
    using events_since_trans [OF trace_extends_send_logged Cons.IH]
    by simp
qed

lemma events_since_send_each_Cons:
  "events_since w (send_each p (c # cs) w) =
   events_since w (send_logged p c w) @
   events_since (send_logged p c w) (send_each p cs (send_logged p c w))"
  using events_since_trans [OF trace_extends_send_logged trace_extends_send_each]
  by simp

text \<open>Every packet the fan-out writes goes to a live session of the list.\<close>

lemma send_each_written:
  "Write k pk r \<in> set (events_since w (send_each p cs w)) \<Longrightarrow>
   pk = p \<and> (\<exists>c\<in>set cs. conn (heap w c) = Some k \<and> status (heap w c) \<noteq> Disconnected)"
proof (induction cs arbitrary: w)
  case Nil
  then show ?case by (simp add: events_since_def)
next
  case (Cons c cs)
  let ?w1 = "send_logged p c w"
  from Cons.prems consider
      (first) "Write k pk r \<in> set (events_since w ?w1)"
    | (rest) "Write k pk r \<in> set (events_since ?w1 (send_each p cs ?w1))"
    by (auto simp add: events_since_send_each_Cons simp del: send_each.simps)
  then show ?case
  proof cases
    case first
    from send_logged_written [OF this] show ?thesis by simp
  next
    case rest
    from Cons.IH [OF this] obtain c' where c': "pk = p" "c' \<in> set cs"
      "conn (heap ?w1 c') = Some k" "status (heap ?w1 c') \<noteq> Disconnected"
      by auto
    have "heap ?w1 c' = heap w c'"
      using heap_send_logged [of p c w c'] c'(3) by auto
    with c' show ?thesis by auto
  qed
qed

text \<open>Every live session of the list is written to, whatever the sends before it returned.\<close>

lemma send_each_writes:
  "c \<in> set cs \<Longrightarrow> status (heap w c) \<noteq> Disconnected \<Longrightarrow> conn (heap w c) = Some k \<Longrightarrow>
   \<exists>r. Write k p r \<in> set (events_since w (send_each p cs w))"
proof (induction cs arbitrary: w)
  case Nil
  then show ?case by simp
next
  case (Cons a cs)
  let ?w1 = "send_logged p a w"
  show ?case
  proof (cases "c = a")
    case True
    then show ?thesis
      using send_logged_writes [of w a k p] Cons.prems
      by (auto simp add: events_since_send_each_Cons simp del: send_each.simps)
  next
    case False
    then have "heap ?w1 c = heap w c"
      using heap_send_logged [of p a w c] by auto
    then have "\<exists>r. Write k p r \<in> set (events_since ?w1 (send_each p cs ?w1))"
      using Cons.IH [of ?w1] Cons.prems False by auto
    then show ?thesis
      by (auto simp add: events_since_send_each_Cons simp del: send_each.simps)
  qed
qed

text \<open>
  C4: for a PUBLISH from the session \<open>c\<close> the fan-out goes through the registry and calls
  Send with the packet for exactly the registered peers whose identifier differs from the
  one of \<open>c\<close> and that are not \<open>publishOnly\<close>; an error of one Send is logged and the
  remaining peers are still served. So every packet written is the PUBLISH and goes to the
  connection of such a peer, and every such peer that is live is written to.
\<close>

theorem ProcessPublish_fanout:
  assumes "broker (heap w c) \<noteq> None"
  shows "ProcessPublish w c packet = Inr (send_each (Publish packet) (fanout_targets w c) w) \<and>
    (\<forall>k pk r.
       Write k pk r \<in> set (events_since w (send_each (Publish packet) (fanout_targets w c) w)) \<longrightarrow>
       pk = Publish packet \<and>
       (\<exists>p \<in> set (fanout_targets w c).
          conn (heap w p) = Some k \<and> status (heap w p) \<noteq> Disconnected)) \<and>
    (\<forall>p \<in> set (fanout_targets w c). \<forall>k.
       status (heap w p) \<noteq> Disconnected \<and> conn (heap w p) = Some k \<longrightarrow>
       (\<exists>r. Write k (Publish packet) r \<in>
          set (events_since w (send_each (Publish packet) (fanout_targets w c) w))))"
  using ProcessPublish_send_each [OF assms] send_each_written send_each_writes
  by blast

theorem ProcessPublish_fanout_witness:
  "broker (heap world3_broken 1) \<noteq> None \<and>
   fanout_targets world3_broken 1 = [2, 3] \<and>
   ProcessPublish world3_broken 1 hello = Inr (send_each (Publish hello) [2, 3] world3_broken) \<and>
   trace (send_each (Publish hello) [2, 3] world3_broken) =
     [Lock 2, Write 12 (Publish hello) (Some (NetError ''broken pipe'')), Unlock 2,
      LogError ''process'' (Some (NetError ''broken pipe'')),
      Lock 3, Write 13 (Publish hello) None, Unlock 3]"
  using ProcessPublish_fanout [of world3_broken 1 hello]
  by (simp add: fanout_targets_def send_logged_def step_defs Let_def world3_def
      world3_broken_def session_def zero_client_def Connected_def Disconnected_def)

section \<open>The handshake\<close>

text \<open>
  C7: the CONNACK that the handshake builds for a CONNECT has SessionPresent equal to the
  negation of CleanSession and ReturnCode equal to what the validation returned. The
  handshake always writes a CONNACK, every CONNACK it writes has that SessionPresent, and
  its ReturnCode is the validation outcome unless the identifier is already registered,
  in which case it is NotAuthorised.
\<close>

theorem connack_SessionPresent_law:
  "SessionPresent (build_connack Validate connect) = (\<not> CleanSession connect) \<and>
   ReturnCode (build_connack Validate connect) = Validate connect \<and>
   events_since w (snd (handleConnackPacket Validate w k connect)) \<noteq> [] \<and>
   (\<forall>e \<in> set (events_since w (snd (handleConnackPacket Validate w k connect))).
      \<exists>ca r. e = Write k (Connack ca) r \<and>
        SessionPresent ca = (\<not> CleanSession connect) \<and>
        (ReturnCode ca = Validate connect \<or>
         Validate connect = Accepted \<and> LoadClient w (ClientIdentifier connect) \<noteq> None \<and>
         ReturnCode ca = ErrRefusedNotAuthorised)) \<and>
   (Validate connect \<noteq> Accepted \<or> LoadClient w (ClientIdentifier connect) = None \<longrightarrow>
      events_since w (snd (handleConnackPacket Validate w k connect)) =
        [Write k (Connack (build_connack Validate connect)) (next_write_result w)])"
  by (auto simp add: handleConnackPacket_def build_connack_def NewControlPacket_Connack_def
      Let_def Write_packet_def emit_def events_since_def split: option.splits prod.splits)

theorem connack_SessionPresent_law_witness:
  "LoadClient world3 ''c4'' = None \<and>
   events_since world3 (snd (handleConnackPacket sample_Validate world3 21 connect_c4)) =
     [Write 21 (Connack \<lparr>SessionPresent = False, ReturnCode = Accepted\<rparr>) None]"
  using connack_SessionPresent_law [of sample_Validate connect_c4 world3 21]
  by (simp add: build_connack_def NewControlPacket_Connack_def LoadClient_def
      next_write_result_def fixture_defs)

text \<open>
  C2, as the specification states it: on the path of a registered identifier the second
  CONNACK carries the return code of the validation, Accepted. It does not: the first
  write has set the return code of the one packet to NotAuthorised, and the second write
  sends that packet again.
\<close>

theorem second_connack_is_not_Accepted:
  "sample_Validate connect_c1 = Accepted \<and>
   LoadClient world3 ''c1'' = Some 1 \<and>
   trace (snd (handleConnackPacket sample_Validate world3 21 connect_c1)) =
     [Write 21 (Connack \<lparr>SessionPresent = False, ReturnCode = ErrRefusedNotAuthorised\<rparr>) None,
      Write 21 (Connack \<lparr>SessionPresent = False, ReturnCode = ErrRefusedNotAuthorised\<rparr>) None] \<and>
   trace (snd (handleConnackPacket sample_Validate world3 21 connect_c1)) \<noteq>
     [Write 21 (Connack \<lparr>SessionPresent = False, ReturnCode = ErrRefusedNotAuthorised\<rparr>) None,
      Write 21 (Connack \<lparr>SessionPresent = False, ReturnCode = sample_Validate connect_c1\<rparr>) None]"
  by (simp add: handleConnackPacket_def build_connack_def NewControlPacket_Connack_def Let_def
      step_defs fixture_defs)

text \<open>
  C2, amended: when the CONNECT is valid and its identifier is registered, the handshake
  writes a CONNACK with ReturnCode NotAuthorised; if that write succeeds it writes the same
  CONNACK, still with ReturnCode NotAuthorised, a second time and returns what the second
  write returned; if the first write fails it returns that error after the one write.
\<close>

theorem duplicate_writes_NotAuthorised_both:
  assumes "Validate connect = Accepted"
    and "LoadClient w (ClientIdentifier connect) \<noteq> None"
  shows "(next_write_result w = None \<longrightarrow>
            fst (handleConnackPacket Validate w k connect) =
              next_write_result (w\<lparr>writes := tl (writes w)\<rparr>) \<and>
            events_since w (snd (handleConnackPacket Validate w k connect)) =
              [Write k (Connack \<lparr>SessionPresent = \<not> CleanSession connect,
                                 ReturnCode = ErrRefusedNotAuthorised\<rparr>) None,
               Write k (Connack \<lparr>SessionPresent = \<not> CleanSession connect,
                                 ReturnCode = ErrRefusedNotAuthorised\<rparr>)
                 (next_write_result (w\<lparr>writes := tl (writes w)\<rparr>))]) \<and>
         (next_write_result w \<noteq> None \<longrightarrow>
            fst (handleConnackPacket Validate w k connect) = next_write_result w \<and>
            events_since w (snd (handleConnackPacket Validate w k connect)) =
              [Write k (Connack \<lparr>SessionPresent = \<not> CleanSession connect,
                                 ReturnCode = ErrRefusedNotAuthorised\<rparr>)
                 (next_write_result w)])"
  using assms
  by (auto simp add: handleConnackPacket_def build_connack_def NewControlPacket_Connack_def
      Let_def Write_packet_def emit_def events_since_def next_write_result_def
      split: option.splits list.splits prod.splits)

theorem duplicate_writes_NotAuthorised_both_witness:
  "sample_Validate connect_c1 = Accepted \<and> LoadClient world3 ''c1'' \<noteq> None \<and>
   next_write_result world3 = None \<and>
   fst (handleConnackPacket sample_Validate world3 21 connect_c1) = None \<and>
   events_since world3 (snd (handleConnackPacket sample_Validate world3 21 connect_c1)) =
     [Write 21 (Connack \<lparr>SessionPresent = False, ReturnCode = ErrRefusedNotAuthorised\<rparr>) None,
      Write 21 (Connack \<lparr>SessionPresent = False, ReturnCode = ErrRefusedNotAuthorised\<rparr>) None]"
  using duplicate_writes_NotAuthorised_both [of sample_Validate connect_c1 world3 21]
  by (simp add: LoadClient_def next_write_result_def world3_def connect_c1_def
      sample_Validate_def)

text \<open>
  Whenever both writes on the path of a registered identifier succeed, the handshake
  reports no error, so that a session is made for the new connection and stored under the
  identifier.
\<close>

lemma handleConnection_registered_identifier:
  assumes "Validate connect = Accepted"
    and "LoadClient w (ClientIdentifier connect) = Some old"
    and "writes w = []"
  shows "fst (handleConnection Validate w k (ReadPacket (Some (Connect connect)))) =
           Some (next_ref w)"
    and "LoadClient (snd (handleConnection Validate w k (ReadPacket (Some (Connect connect)))))
           (ClientIdentifier connect) = Some (next_ref w)"
  using assms
  by (simp_all add: handleConnection_def handleConnectPacket_def handleConnackPacket_def
      build_connack_def NewControlPacket_Connack_def newClient_def Let_def step_defs
      update_conv')

text \<open>
  C1: a CONNECT with a registered identifier is rejected, no session is made for the new
  connection and the registered session stays registered. With \<^verbatim>\<open>c1\<close> registered and a
  valid CONNECT for \<^verbatim>\<open>c1\<close> on connection 21, the code writes the refusal twice, takes
  the handshake for a success, makes the session 4 on connection 21 and stores it under
  \<^verbatim>\<open>c1\<close>, where the session 1 was.
\<close>

theorem duplicate_connect_replaces_session:
  "LoadClient world3 ''c1'' = Some 1 \<and>
   sample_Validate connect_c1 = Accepted \<and>
   fst (handleConnection sample_Validate world3 21 (ReadPacket (Some (Connect connect_c1))))
     = Some 4 \<and>
   clients (snd (handleConnection sample_Validate world3 21 (ReadPacket (Some (Connect connect_c1)))))
     = [(''c1'', 4), (''c2'', 2), (''c3'', 3)] \<and>
   heap (snd (handleConnection sample_Validate world3 21 (ReadPacket (Some (Connect connect_c1))))) 4
     = session ''c1'' 21 \<and>
   trace (snd (handleConnection sample_Validate world3 21 (ReadPacket (Some (Connect connect_c1)))))
     = [LogInfo ''packet'',
        Write 21 (Connack \<lparr>SessionPresent = False, ReturnCode = ErrRefusedNotAuthorised\<rparr>) None,
        Write 21 (Connack \<lparr>SessionPresent = False, ReturnCode = ErrRefusedNotAuthorised\<rparr>) None]"
  by (simp add: handleConnection_def handleConnectPacket_def handleConnackPacket_def
      build_connack_def NewControlPacket_Connack_def newClient_def Let_def step_defs fixture_defs)

section \<open>The accept loop\<close>

lemma int64_id: "- (2 ^ 63) \<le> x \<Longrightarrow> x < 2 ^ 63 \<Longrightarrow> int64 x = x"
  by (simp add: int64_def)

text \<open>
  While the delay is positive and at most the maximum, doubling it does not wrap, and one
  iteration is its action followed by the loop on the next delay.
\<close>

lemma accept_loop_Cons:
  assumes "0 < d" "d \<le> ACCEPT_MAX_SLEEP"
  shows "accept_loop d (r # rs) =
    (accept_action d r @ fst (accept_loop (next_delay d r) rs),
     snd (accept_loop (next_delay d r) rs))"
proof -
  have "int64 (d * 2) = d * 2"
    using assms by (intro int64_id) (simp_all add: ACCEPT_MAX_SLEEP_def Second_def)
  then show ?thesis
    by (cases r) (auto simp add: next_delay_def Let_def min_def split: prod.splits)
qed

lemma next_delay_bounds:
  "0 < d \<Longrightarrow> d \<le> ACCEPT_MAX_SLEEP \<Longrightarrow>
   0 < next_delay d r \<and> next_delay d r \<le> ACCEPT_MAX_SLEEP"
  by (cases r)
    (auto simp add: next_delay_def ACCEPT_MAX_SLEEP_def ACCEPT_MIN_SLEEP_def Second_def
      Millisecond_def)

lemma accept_loop_append:
  "0 < d \<Longrightarrow> d \<le> ACCEPT_MAX_SLEEP \<Longrightarrow>
   accept_loop d (xs @ ys) =
     (fst (accept_loop d xs) @ fst (accept_loop (snd (accept_loop d xs)) ys),
      snd (accept_loop (snd (accept_loop d xs)) ys))"
proof (induction xs arbitrary: d)
  case Nil
  then show ?case by simp
next
  case (Cons r xs)
  have b: "0 < next_delay d r" "next_delay d r \<le> ACCEPT_MAX_SLEEP"
    using next_delay_bounds [OF Cons.prems] by simp_all
  show ?case
    using Cons.IH [OF b] Cons.prems
    by (simp add: accept_loop_Cons del: accept_loop.simps)
qed

lemma delay_bounds:
  "0 < d \<Longrightarrow> d \<le> ACCEPT_MAX_SLEEP \<Longrightarrow>
   0 < snd (accept_loop d xs) \<and> snd (accept_loop d xs) \<le> ACCEPT_MAX_SLEEP"
proof (induction xs arbitrary: d)
  case Nil
  then show ?case by simp
next
  case (Cons r xs)
  have b: "0 < next_delay d r" "next_delay d r \<le> ACCEPT_MAX_SLEEP"
    using next_delay_bounds [OF Cons.prems] by simp_all
  show ?case
    using Cons.IH [OF b] Cons.prems
    by (simp add: accept_loop_Cons del: accept_loop.simps)
qed

lemma delay_snoc:
  assumes "0 < d" "d \<le> ACCEPT_MAX_SLEEP"
  shows "snd (accept_loop d (xs @ [r])) = next_delay (snd (accept_loop d xs)) r"
proof -
  have b: "0 < snd (accept_loop d xs)" "snd (accept_loop d xs) \<le> ACCEPT_MAX_SLEEP"
    using delay_bounds [OF assms] by simp_all
  show ?thesis
    by (simp add: accept_loop_append [OF assms] accept_loop_Cons [OF b]
        del: accept_loop.simps(2-4))
qed

lemma min_double: "0 < (M::int) \<Longrightarrow> min (min x M * 2) M = min (x * 2) M"
  by (auto simp add: min_def)

lemma failures_since_accept_snoc:
  "failures_since_accept (xs @ [r]) =
     (case r of
        AcceptConn _ \<Rightarrow> 0
      | AcceptTemporary _ \<Rightarrow> Suc (failures_since_accept xs)
      | AcceptError _ \<Rightarrow> failures_since_accept xs)"
  by (cases r) (simp_all add: failures_since_accept_def)

lemma initial_delay_bounds:
  "0 < 10 * ACCEPT_MIN_SLEEP" "10 * ACCEPT_MIN_SLEEP \<le> ACCEPT_MAX_SLEEP"
  by (simp_all add: ACCEPT_MIN_SLEEP_def ACCEPT_MAX_SLEEP_def Millisecond_def Second_def)

lemma delay_closed_form:
  "snd (accept_loop (10 * ACCEPT_MIN_SLEEP) xs) = current_delay xs"
proof (induction xs rule: rev_induct)
  case Nil
  then show ?case
    by (simp add: current_delay_def failures_since_accept_def ACCEPT_MIN_SLEEP_def
        ACCEPT_MAX_SLEEP_def Millisecond_def Second_def)
next
  case (snoc r xs)
  have "snd (accept_loop (10 * ACCEPT_MIN_SLEEP) (xs @ [r])) = next_delay (current_delay xs) r"
    by (simp add: delay_snoc [OF initial_delay_bounds] snoc.IH)
  also have "\<dots> = current_delay (xs @ [r])"
  proof (cases r)
    case (AcceptConn k)
    then show ?thesis
      by (simp add: next_delay_def current_delay_def failures_since_accept_snoc
          ACCEPT_MIN_SLEEP_def ACCEPT_MAX_SLEEP_def Millisecond_def Second_def)
  next
    case (AcceptTemporary ne)
    have "0 < ACCEPT_MAX_SLEEP"
      by (simp add: ACCEPT_MAX_SLEEP_def Second_def)
    then show ?thesis
      using AcceptTemporary
      by (simp add: next_delay_def current_delay_def failures_since_accept_snoc min_double
          mult.assoc mult.commute [of 2])
  next
    case (AcceptError err)
    then show ?thesis
      by (simp add: next_delay_def current_delay_def failures_since_accept_snoc)
  qed
  finally show ?case .
qed

text \<open>
  C8, as the specification states it: the k-th consecutive temporary accept failure
  sleeps min(10 * base * 2^k, cap). After an accepted connection the first temporary
  failure (k = 0) sleeps the base of 100 ms, not ten times the base.
\<close>

theorem delay_after_accept_is_base:
  "StartClientListening DefaultConfig [None]
     [AcceptConn 21, AcceptTemporary (NetError ''too many open files'')] =
     [LogInfo ''Start Listening client on 0.0.0.0:1883'',
      GoHandleConnection 21,
      LogError ''Temporary Client Accept Error(%v), sleeping %dms''
        (Some (NetError ''too many open files'')),
      Sleep (100 * Millisecond)] \<and>
   100 * Millisecond \<noteq> min (10 * ACCEPT_MIN_SLEEP * 2 ^ 0) ACCEPT_MAX_SLEEP"
  by (simp add: StartClientListening_def DefaultConfig_def int64_def
      ACCEPT_MIN_SLEEP_def ACCEPT_MAX_SLEEP_def Millisecond_def Second_def)

text \<open>
  C8, amended: once the listener is there, each further result of accept adds its action
  to what the loop has done, whatever came before, so no result ends the loop. A
  temporary failure is logged and sleeps the current delay: min(10 * base * 2^k, cap) as
  long as no connection was accepted and min(base * 2^k, cap) after one was, where k
  counts the temporary failures since the last accepted connection (or since the start),
  base is 100 ms and cap is 10 s. An accepted connection is handed to a new goroutine and
  resets the delay to the base. Any other error is logged, with no sleep and the delay
  unchanged.
\<close>

theorem accept_backoff:
  assumes "listen_loop (Host config @ '':'' @ Port config) listens = (ls, True)"
  shows "StartClientListening config listens (pre @ [r]) =
           StartClientListening config listens pre @ accept_action (current_delay pre) r \<and>
         snd (accept_loop (10 * ACCEPT_MIN_SLEEP) pre) = current_delay pre \<and>
         current_delay [] = 10 * ACCEPT_MIN_SLEEP \<and>
         current_delay (pre @ [AcceptConn k]) = ACCEPT_MIN_SLEEP \<and>
         current_delay (pre @ [AcceptError err]) = current_delay pre"
proof (intro conjI)
  have b: "0 < current_delay pre" "current_delay pre \<le> ACCEPT_MAX_SLEEP"
    using delay_bounds [OF initial_delay_bounds, of pre] by (simp_all add: delay_closed_form)
  have "fst (accept_loop (10 * ACCEPT_MIN_SLEEP) (pre @ [r])) =
        fst (accept_loop (10 * ACCEPT_MIN_SLEEP) pre) @ accept_action (current_delay pre) r"
    by (simp add: accept_loop_append [OF initial_delay_bounds] delay_closed_form
        accept_loop_Cons [OF b] del: accept_loop.simps(2-4))
  then show "StartClientListening config listens (pre @ [r]) =
           StartClientListening config listens pre @ accept_action (current_delay pre) r"
    using assms by (simp add: StartClientListening_def)
  show "snd (accept_loop (10 * ACCEPT_MIN_SLEEP) pre) = current_delay pre"
    by (rule delay_closed_form)
  show "current_delay [] = 10 * ACCEPT_MIN_SLEEP"
    by (simp add: current_delay_def failures_since_accept_def ACCEPT_MIN_SLEEP_def
        ACCEPT_MAX_SLEEP_def Millisecond_def Second_def)
  show "current_delay (pre @ [AcceptConn k]) = ACCEPT_MIN_SLEEP"
    by (simp add: current_delay_def failures_since_accept_snoc ACCEPT_MIN_SLEEP_def
        ACCEPT_MAX_SLEEP_def Millisecond_def Second_def)
  show "current_delay (pre @ [AcceptError err]) = current_delay pre"
    by (simp add: current_delay_def failures_since_accept_snoc)
qed

theorem accept_backoff_witness:
  "listen_loop (Host DefaultConfig @ '':'' @ Port DefaultConfig) [None] =
     ([LogInfo ''Start Listening client on 0.0.0.0:1883''], True) \<and>
   StartClientListening DefaultConfig [None]
     [AcceptTemporary (NetError ''too many open files''), AcceptError (NetError ''closed''),
      AcceptTemporary (NetError ''too many open files'')] =
   StartClientListening DefaultConfig [None]
     [AcceptTemporary (NetError ''too many open files''), AcceptError (NetError ''closed'')] @
     [LogError ''Temporary Client Accept Error(%v), sleeping %dms''
        (Some (NetError ''too many open files'')), Sleep (2 * Second)]"
  using accept_backoff [of DefaultConfig "[None]"
      "[LogInfo ''Start Listening client on 0.0.0.0:1883'']"
      "[AcceptTemporary (NetError ''too many open files''), AcceptError (NetError ''closed'')]"
      "AcceptTemporary (NetError ''too many open files'')"]
  by (simp add: DefaultConfig_def current_delay_def failures_since_accept_def
      ACCEPT_MIN_SLEEP_def ACCEPT_MAX_SLEEP_def Millisecond_def Second_def)

section \<open>Configuration\<close>

text \<open>
  C10: \<^verbatim>\<open>check\<close> never returns an error; it turns a worker count of 0 into 1024 and,
  when the port is not empty, an empty host into \<^verbatim>\<open>0.0.0.0\<close>. So \<^verbatim>\<open>ConfigureConfig\<close>
  returns an error only when the parsing of the flags returned it or the configuration
  file could not be read or decoded, and returns a configuration whenever the flags were
  parsed, help was not asked for and the file, if one is named, was loaded.
\<close>

theorem check_never_fails:
  "fst (check config) = None \<and>
   snd (check config) = config
     \<lparr>Worker := (if Worker config = 0 then 1024 else Worker config),
      Host := (if Port config \<noteq> [] \<and> Host config = [] then ''0.0.0.0'' else Host config)\<rparr> \<and>
   (\<forall>cfg e lg. ConfigureConfig Parse ReadFile Unmarshal log args = Return (cfg, Some e, lg) \<longrightarrow>
      cfg = None \<and>
      (Parse args = ParseError e \<or>
       (\<exists>fl. Parse args = Parsed fl \<and> \<not> help_flag fl \<and> configFile fl \<noteq> [] \<and>
          (ReadFile (configFile fl) = Inl e \<or>
           (\<exists>content. ReadFile (configFile fl) = Inr content \<and> Unmarshal content = Inl e))))) \<and>
   (\<forall>fl. Parse args = Parsed fl \<and> \<not> help_flag fl \<and>
      (configFile fl = [] \<or> (\<exists>c. LoadConfig ReadFile Unmarshal (configFile fl) = Inr c)) \<longrightarrow>
      (\<exists>c lg. ConfigureConfig Parse ReadFile Unmarshal log args = Return (Some c, None, lg)))"
proof (intro conjI allI impI)
  show "fst (check config) = None"
    by (simp add: check_def Let_def)
  show "snd (check config) = config
     \<lparr>Worker := (if Worker config = 0 then 1024 else Worker config),
      Host := (if Port config \<noteq> [] \<and> Host config = [] then ''0.0.0.0'' else Host config)\<rparr>"
    by (simp add: check_def Let_def)
next
  fix cfg e lg
  assume "ConfigureConfig Parse ReadFile Unmarshal log args = Return (cfg, Some e, lg)"
  then show "cfg = None"
    by (auto simp add: ConfigureConfig_def check_def Let_def
        split: parse_result.splits if_splits sum.splits)
next
  fix cfg e lg
  assume "ConfigureConfig Parse ReadFile Unmarshal log args = Return (cfg, Some e, lg)"
  then show "Parse args = ParseError e \<or>
       (\<exists>fl. Parse args = Parsed fl \<and> \<not> help_flag fl \<and> configFile fl \<noteq> [] \<and>
          (ReadFile (configFile fl) = Inl e \<or>
           (\<exists>content. ReadFile (configFile fl) = Inr content \<and> Unmarshal content = Inl e)))"
    by (auto simp add: ConfigureConfig_def LoadConfig_def check_def Let_def
        split: parse_result.splits if_splits sum.splits)
next
  fix fl
  assume "Parse args = Parsed fl \<and> \<not> help_flag fl \<and>
      (configFile fl = [] \<or> (\<exists>c. LoadConfig ReadFile Unmarshal (configFile fl) = Inr c))"
  then show "\<exists>c lg. ConfigureConfig Parse ReadFile Unmarshal log args = Return (Some c, None, lg)"
    by (auto simp add: ConfigureConfig_def check_def Let_def)
qed

theorem check_never_fails_witness:
  "ConfigureConfig (\<lambda>args. Parsed sample_flags) no_file no_json Prod
     [''-w'', ''0'', ''-host'', [], ''-D''] =
     Return (Some \<lparr>Worker = 1024, Host = ''0.0.0.0'', Port = ''1883'', Debug = True\<rparr>,
             None, DebugLogger) \<and>
   check \<lparr>Worker = 0, Host = [], Port = ''1883'', Debug = True\<rparr> =
     (None, \<lparr>Worker = 1024, Host = ''0.0.0.0'', Port = ''1883'', Debug = True\<rparr>)"
  using check_never_fails [of "\<lparr>Worker = 0, Host = [], Port = ''1883'', Debug = True\<rparr>"
      "\<lambda>args. Parsed sample_flags" no_file no_json Prod "[''-w'', ''0'', ''-host'', [], ''-D'']"]
  by (simp add: ConfigureConfig_def sample_flags_def check_def Let_def)

end
